theory Spec2Isabelle
  imports Main
begin

section \<open>Python values and exceptions\<close>

text \<open>
  The exceptions that the modelled code of \<^verbatim>\<open>xpra/server/ssh.py\<close> can raise.
  \<open>SendFailed\<close> is the plain \<^verbatim>\<open>Exception("failed to send all the data ...")\<close>
  raised by \<^verbatim>\<open>chan_send\<close>.
\<close>

datatype error =
    TypeError
  | AttributeError
  | ValueError
  | IndexError
  | OSError
  | Base64Error
  | AssertionError
  | SendFailed

section \<open>chan\_send\<close>

text \<open>
  \<^verbatim>\<open>
  def chan_send(send_fn, data, timeout=5):
      if not data:
          return
      size = len(data)
      start = monotonic()
      while data and monotonic()-start<timeout:
          sent = send_fn(data)
          if not sent:
              break
          data = data[sent:]
      if data:
          raise Exception("failed to send all the data using %s" % send_fn)
  \<close>
  The clock and the send function act on the outside world \<open>'w\<close>: \<open>monotonic\<close> reads
  the clock, \<open>send_fn\<close> offers the buffer and answers with the number of bytes accepted,
  or raises. A clock reading is a floating-point number of seconds; its type \<open>'t\<close> is
  left open, and the test of the window is a parameter:
  \<open>elapsed_lt now start timeout\<close> is the truth value of
  \<^verbatim>\<open>now-start<timeout\<close> as Python computes it, with the subtraction rounded to an
  IEEE double. The loop returns the exception that interrupted it (if any) together with
  the part of the buffer that is still unsent.
\<close>

function chan_send_loop ::
  "('w \<Rightarrow> 't \<times> 'w) \<Rightarrow> ('t \<Rightarrow> 't \<Rightarrow> int \<Rightarrow> bool) \<Rightarrow>
   (string \<Rightarrow> 'w \<Rightarrow> (error + nat) \<times> 'w) \<Rightarrow> 't \<Rightarrow> int \<Rightarrow>
   string \<Rightarrow> 'w \<Rightarrow> (error option \<times> string) \<times> 'w"
where
  "chan_send_loop monotonic elapsed_lt send_fn start timeout data w =
     (if data = [] then ((None, data), w)
      else case monotonic w of (now, w1) \<Rightarrow>
        if elapsed_lt now start timeout then
          (case send_fn data w1 of
             (Inl e, w2) \<Rightarrow> ((Some e, data), w2)
           | (Inr sent, w2) \<Rightarrow>
               if sent = 0 then ((None, data), w2)
               else chan_send_loop monotonic elapsed_lt send_fn start timeout
                      (drop sent data) w2)
        else ((None, data), w1))"
  by pat_completeness auto
termination
  by (relation "measure (\<lambda>(monotonic, elapsed_lt, send_fn, start, timeout, data, w).
        length data)") auto

text \<open>
  After the loop (lines 45--46): an exception of the send function goes on, and what is
  left of the buffer decides between the plain return and the exception.
\<close>

fun raise_if_undrained :: "(error option \<times> string) \<times> 'w \<Rightarrow> (error + unit) \<times> 'w" where
  "raise_if_undrained ((Some e, data), w) = (Inl e, w)"
| "raise_if_undrained ((None, data), w) =
     (if data \<noteq> [] then (Inl SendFailed, w) else (Inr (), w))"

definition chan_send ::
  "('w \<Rightarrow> 't \<times> 'w) \<Rightarrow> ('t \<Rightarrow> 't \<Rightarrow> int \<Rightarrow> bool) \<Rightarrow>
   (string \<Rightarrow> 'w \<Rightarrow> (error + nat) \<times> 'w) \<Rightarrow> int \<Rightarrow>
   string \<Rightarrow> 'w \<Rightarrow> (error + unit) \<times> 'w"
where
  "chan_send monotonic elapsed_lt send_fn timeout data w =
     (if data = [] then (Inr (), w)
      else case monotonic w of (start, w0) \<Rightarrow>
        raise_if_undrained
          (chan_send_loop monotonic elapsed_lt send_fn start timeout data w0))"

section \<open>Python string methods\<close>

text \<open>
  The methods of \<^verbatim>\<open>str\<close> that the command interpreter uses, on \<open>string\<close>
  (a list of characters). \<open>py_find\<close> answers \<open>-1\<close> when the substring does not occur,
  \<open>py_index\<close> raises \<open>IndexError\<close> out of range, as Python does.
\<close>

definition py_startswith :: "string \<Rightarrow> string \<Rightarrow> bool" where
  "py_startswith s p = (take (length p) s = p)"

definition py_endswith :: "string \<Rightarrow> string \<Rightarrow> bool" where
  "py_endswith s p = (length p \<le> length s \<and> drop (length s - length p) s = p)"

definition py_lstrip :: "string \<Rightarrow> string \<Rightarrow> string" where
  "py_lstrip chars s = dropWhile (\<lambda>c. c \<in> set chars) s"

definition py_rstrip :: "string \<Rightarrow> string \<Rightarrow> string" where
  "py_rstrip chars s = rev (dropWhile (\<lambda>c. c \<in> set chars) (rev s))"

definition py_strip :: "string \<Rightarrow> string \<Rightarrow> string" where
  "py_strip chars s = py_rstrip chars (py_lstrip chars s)"

fun py_find_from :: "nat \<Rightarrow> string \<Rightarrow> string \<Rightarrow> int" where
  "py_find_from i sub [] = (if sub = [] then int i else - 1)"
| "py_find_from i sub (c # cs) =
     (if py_startswith (c # cs) sub then int i else py_find_from (Suc i) sub cs)"

definition py_find :: "string \<Rightarrow> string \<Rightarrow> int" where
  "py_find s sub = py_find_from 0 sub s"

text \<open>
  \<^verbatim>\<open>s.split(sep)\<close> for a non-empty separator: the pieces between the non-overlapping
  occurrences of \<open>sep\<close>, found from the left. \<open>skip\<close> counts the characters of a
  separator just matched that are still to be passed over.
\<close>

fun py_split_aux :: "string \<Rightarrow> nat \<Rightarrow> string \<Rightarrow> string \<Rightarrow> string list" where
  "py_split_aux sep skip piece [] = [rev piece]"
| "py_split_aux sep skip piece (c # cs) =
     (if 0 < skip then py_split_aux sep (skip - 1) piece cs
      else if py_startswith (c # cs) sep then rev piece # py_split_aux sep (length sep - 1) [] cs
      else py_split_aux sep 0 (c # piece) cs)"

definition py_split :: "string \<Rightarrow> string \<Rightarrow> string list" where
  "py_split s sep = py_split_aux sep 0 [] s"

text \<open>\<^verbatim>\<open>s.split(sep, 1)\<close>: split at the first occurrence only.\<close>

fun py_split1_aux :: "string \<Rightarrow> string \<Rightarrow> string \<Rightarrow> string list" where
  "py_split1_aux sep piece [] = [rev piece]"
| "py_split1_aux sep piece (c # cs) =
     (if py_startswith (c # cs) sep then [rev piece, drop (length sep) (c # cs)]
      else py_split1_aux sep (c # piece) cs)"

definition py_split1 :: "string \<Rightarrow> string \<Rightarrow> string list" where
  "py_split1 s sep = py_split1_aux sep [] s"

definition py_index :: "'a list \<Rightarrow> nat \<Rightarrow> error + 'a" where
  "py_index xs i = (if i < length xs then Inr (xs ! i) else Inl IndexError)"

text \<open>\<^verbatim>\<open>s.replace(old, new)\<close> for a non-empty \<open>old\<close>: every occurrence, from the left.\<close>

fun py_join :: "string \<Rightarrow> string list \<Rightarrow> string" where
  "py_join sep [] = []"
| "py_join sep [x] = x"
| "py_join sep (x # y # ys) = x @ sep @ py_join sep (y # ys)"

definition py_replace :: "string \<Rightarrow> string \<Rightarrow> string \<Rightarrow> string" where
  "py_replace s old new = py_join new (py_split s old)"

section \<open>shlex.split\<close>

text \<open>
  \<^verbatim>\<open>shlex.split(s)\<close> of the Python standard library: the POSIX-mode lexer with
  \<^verbatim>\<open>whitespace_split\<close> on and no comment characters. Its states are those of
  \<^verbatim>\<open>shlex.read_token\<close>: between tokens, inside a word, inside a quotation (with
  the quote character), and after a backslash (with the state to return to: a word, or
  the quotation it was found in). An unterminated quotation or a trailing backslash
  raises \<open>ValueError\<close>. A quotation makes a token even when it is empty; inside single
  quotes the backslash is an ordinary character.
\<close>

datatype lex_state = LexSpace | LexWord | LexQuote char | LexEscape "char option"

definition shlex_whitespace :: "char set" where
  "shlex_whitespace = {CHR '' '', CHR 0x09, CHR 0x0D, CHR 0x0A}"

definition shlex_quotes :: "char set" where
  "shlex_quotes = {CHR 0x27, CHR 0x22}"

fun read_tokens :: "lex_state \<Rightarrow> string \<Rightarrow> string \<Rightarrow> error + string list" where
  "read_tokens LexSpace token [] = Inr []"
| "read_tokens LexWord token [] = Inr [rev token]"
| "read_tokens (LexQuote q) token [] = Inl ValueError"
| "read_tokens (LexEscape e) token [] = Inl ValueError"
| "read_tokens LexSpace token (c # cs) =
     (if c \<in> shlex_whitespace then read_tokens LexSpace [] cs
      else if c = CHR 0x5C then read_tokens (LexEscape None) [] cs
      else if c \<in> shlex_quotes then read_tokens (LexQuote c) [] cs
      else read_tokens LexWord [c] cs)"
| "read_tokens LexWord token (c # cs) =
     (if c \<in> shlex_whitespace then
        (case read_tokens LexSpace [] cs of
           Inl e \<Rightarrow> Inl e
         | Inr ts \<Rightarrow> Inr (rev token # ts))
      else if c \<in> shlex_quotes then read_tokens (LexQuote c) token cs
      else if c = CHR 0x5C then read_tokens (LexEscape None) token cs
      else read_tokens LexWord (c # token) cs)"
| "read_tokens (LexQuote q) token (c # cs) =
     (if c = q then read_tokens LexWord token cs
      else if c = CHR 0x5C \<and> q = CHR 0x22 then read_tokens (LexEscape (Some q)) token cs
      else read_tokens (LexQuote q) (c # token) cs)"
| "read_tokens (LexEscape None) token (c # cs) = read_tokens LexWord (c # token) cs"
| "read_tokens (LexEscape (Some q)) token (c # cs) =
     (if c \<noteq> CHR 0x5C \<and> c \<noteq> q then read_tokens (LexQuote q) (c # CHR 0x5C # token) cs
      else read_tokens (LexQuote q) (c # token) cs)"

definition shlex_split :: "string \<Rightarrow> error + string list" where
  "shlex_split s = read_tokens LexSpace [] s"

section \<open>The SSH server object\<close>

text \<open>
  A channel is named by its number. What the server does to the outside is recorded in a
  trace: closing a channel, sending an exit status, calling \<^verbatim>\<open>Popen\<close> (with its
  argument list), starting a forwarding thread. The fields are those of
  \<^verbatim>\<open>SSHServer.__init__\<close>; \<open>display_name\<close> is the attribute read with
  \<^verbatim>\<open>getattr(self, "display_name", "")\<close>, and \<open>proxy_process\<close> lists the
  channels that carry a \<^verbatim>\<open>proxy_process\<close> attribute.
\<close>

type_synonym chan = nat

datatype action =
    ChanClose chan
  | SendExitStatus chan int
  | Popen "string list"
  | StartThread string

record 'w server =
  event :: bool
  none_auth :: bool
  pubkey_auth :: bool
  proxy_channel :: "chan option"
  options :: "string \<rightharpoonup> string"
  display_name :: "string option"
  proxy_process :: "chan list"
  trace :: "action list"
  world :: 'w

text \<open>
  The collaborators that are not part of \<^verbatim>\<open>xpra/server/ssh.py\<close> are parameters:
  the platform flags, the clock and the test of the window, the two send functions of a channel, \<^verbatim>\<open>osexpand\<close>,
  \<^verbatim>\<open>decode_str\<close>, \<^verbatim>\<open>parse_bool\<close>, \<^verbatim>\<open>get_xpra_command\<close>, the
  outcome of running a lookup command to completion (the text of the exception, or
  stdout, stderr and the return code), the outcome of spawning the proxy subprocess, and
  the order in which Python iterates over \<^verbatim>\<open>set(subcommands)\<close>.
\<close>

record ('w, 't) env =
  POSIX :: bool
  WIN32 :: bool
  monotonic :: "'w \<Rightarrow> 't \<times> 'w"
  elapsed_lt :: "'t \<Rightarrow> 't \<Rightarrow> int \<Rightarrow> bool"
  channel_send :: "chan \<Rightarrow> string \<Rightarrow> 'w \<Rightarrow> (error + nat) \<times> 'w"
  channel_send_stderr :: "chan \<Rightarrow> string \<Rightarrow> 'w \<Rightarrow> (error + nat) \<times> 'w"
  osexpand :: "string \<Rightarrow> string"
  decode_str :: "string \<Rightarrow> string"
  parse_bool :: "string \<Rightarrow> string option \<Rightarrow> bool \<Rightarrow> bool"
  get_xpra_command :: "string list"
  popen_communicate :: "string list \<Rightarrow> 'w \<Rightarrow> (string + string \<times> string \<times> int) \<times> 'w"
  popen_spawn :: "string list \<Rightarrow> 'w \<Rightarrow> error option \<times> 'w"
  set_iter :: "string list \<Rightarrow> string list"

text \<open>\<^verbatim>\<open>chan_send(channel.send, data)\<close> with the default timeout of 5 seconds.\<close>

definition send_on ::
  "('w, 't) env \<Rightarrow> (string \<Rightarrow> 'w \<Rightarrow> (error + nat) \<times> 'w) \<Rightarrow> string \<Rightarrow> 'w server \<Rightarrow>
   (error + unit) \<times> 'w server"
where
  "send_on E send_fn data s =
     (case chan_send (monotonic E) (elapsed_lt E) send_fn 5 data (world s) of
        (r, w') \<Rightarrow> (r, s\<lparr>world := w'\<rparr>))"

definition send_exit_status :: "chan \<Rightarrow> int \<Rightarrow> 'w server \<Rightarrow> 'w server" where
  "send_exit_status channel status s = s\<lparr>trace := trace s @ [SendExitStatus channel status]\<rparr>"

text \<open>
  \<^verbatim>\<open>
  def fail():
      self.event.set()
      channel.close()
      return False
  \<close>
\<close>

definition fail :: "chan \<Rightarrow> 'w server \<Rightarrow> (error + bool) \<times> 'w server" where
  "fail channel s = (Inr False, s\<lparr>event := True, trace := trace s @ [ChanClose channel]\<rparr>)"

text \<open>
  \<^verbatim>\<open>
  def _run_proxy(self, channel):
      pc = self.proxy_channel
      if pc:
          self.proxy_channel = None
          pc.close()
      self.proxy_channel = channel
      self.event.set()
  \<close>
\<close>

definition run_proxy :: "chan \<Rightarrow> 'w server \<Rightarrow> 'w server" where
  "run_proxy channel s =
     (let s1 = (case proxy_channel s of
                  Some pc \<Rightarrow> s\<lparr>proxy_channel := None, trace := trace s @ [ChanClose pc]\<rparr>
                | None \<Rightarrow> s)
      in s1\<lparr>proxy_channel := Some channel, event := True\<rparr>)"

text \<open>
  \<^verbatim>\<open>proxy_start\<close>: spawn \<^verbatim>\<open>get_xpra_command()+[subcommand]+args\<close>; an
  \<open>OSError\<close> is logged and the method returns; otherwise the three forwarding threads
  are started and the process is attached to the channel. The forwarding threads
  themselves run concurrently and are not modelled.
\<close>

definition proxy_start ::
  "('w, 't) env \<Rightarrow> chan \<Rightarrow> string \<Rightarrow> string list \<Rightarrow> 'w server \<Rightarrow> error option \<times> 'w server"
where
  "proxy_start E channel subcommand args s =
     (let cmd = get_xpra_command E @ [subcommand] @ args;
          s1 = s\<lparr>trace := trace s @ [Popen cmd]\<rparr>
      in case popen_spawn E cmd (world s1) of
           (Some OSError, w') \<Rightarrow> (None, s1\<lparr>world := w'\<rparr>)
         | (Some e, w') \<Rightarrow> (Some e, s1\<lparr>world := w'\<rparr>)
         | (None, w') \<Rightarrow>
             (let tname = py_replace subcommand ''_proxy_'' ''proxy-''
              in (None, s1\<lparr>world := w',
                            trace := trace s1 @ [StartThread (tname @ ''-stderr''),
                                                 StartThread (tname @ ''-stdout''),
                                                 StartThread (tname @ ''-stdin'')],
                            proxy_process := channel # proxy_process s1\<rparr>)))"

section \<open>check\_channel\_exec\_request\<close>

text \<open>
  Rule 1, the executable probe (lines 159--187): \<open>cmd\<close> has two or three tokens and the
  last one names the executable. Without POSIX the platform is asserted to be Windows
  and the answer is synthesized; with POSIX the
  lookup command is run and its output relayed. An exception of \<^verbatim>\<open>chan_send\<close>
  leaves the method.
\<close>

definition probe_rule ::
  "('w, 't) env \<Rightarrow> chan \<Rightarrow> string list \<Rightarrow> 'w server \<Rightarrow> (error + bool) \<times> 'w server"
where
  "probe_rule E channel cmd s =
     (let xpra_cmd = last cmd in
      if \<not> POSIX E then
        (if \<not> WIN32 E then (Inl AssertionError, s)
         else if py_strip [CHR 0x27] (py_strip [CHR 0x22] xpra_cmd) = ''xpra'' then
           (case send_on E (channel_send E channel) ''xpra is xpra'' s of
              (Inl e, s1) \<Rightarrow> (Inl e, s1)
            | (Inr u, s1) \<Rightarrow> (Inr True, send_exit_status channel 0 s1))
         else
           (case send_on E (channel_send_stderr E channel)
                   (''type: '' @ xpra_cmd @ '': not found'') s of
              (Inl e, s1) \<Rightarrow> (Inl e, s1)
            | (Inr u, s1) \<Rightarrow> (Inr True, send_exit_status channel 1 s1)))
      else
        (let cmd' = butlast cmd @ [osexpand E xpra_cmd];
             s0 = s\<lparr>trace := trace s @ [Popen cmd']\<rparr>
         in case popen_communicate E cmd' (world s0) of
              (Inl msg, w') \<Rightarrow>
                (case send_on E (channel_send_stderr E channel)
                        (''failed to execute command: '' @ msg) (s0\<lparr>world := w'\<rparr>) of
                   (Inl e, s1) \<Rightarrow> (Inl e, s1)
                 | (Inr u, s1) \<Rightarrow> (Inr True, send_exit_status channel 1 s1))
            | (Inr (out, err, returncode), w') \<Rightarrow>
                (case send_on E (channel_send E channel) out (s0\<lparr>world := w'\<rparr>) of
                   (Inl e, s1) \<Rightarrow> (Inl e, s1)
                 | (Inr u, s1) \<Rightarrow>
                     (case send_on E (channel_send_stderr E channel) err s1 of
                        (Inl e, s2) \<Rightarrow> (Inl e, s2)
                      | (Inr u, s2) \<Rightarrow> (Inr True, send_exit_status channel returncode s2)))))"

text \<open>
  Rule 2, a direct xpra subcommand (lines 189--211): \<open>cmd\<close> has at least two tokens and
  the first ends with \<^verbatim>\<open>xpra\<close>.
\<close>

definition xpra_rule ::
  "('w, 't) env \<Rightarrow> chan \<Rightarrow> string list \<Rightarrow> 'w server \<Rightarrow> (error + bool) \<times> 'w server"
where
  "xpra_rule E channel cmd s =
     (let subcommand = py_rstrip '';'' (py_strip [CHR 0x22, CHR 0x27] (cmd ! 1)) in
      if subcommand \<in> {''_proxy_start'', ''_proxy_start_desktop'', ''_proxy_shadow_start''} then
        (let proxy_start_opt = parse_bool E ''proxy-start'' (options s ''proxy-start'') False in
         if \<not> proxy_start_opt then fail channel s
         else case proxy_start E channel subcommand (drop 2 cmd) s of
                (Some e, s1) \<Rightarrow> (Inl e, s1)
              | (None, s1) \<Rightarrow> (Inr True, run_proxy channel s1))
      else if subcommand = ''_proxy'' then
        (if length cmd = 3
            \<and> (case display_name s of None \<Rightarrow> [] | Some d \<Rightarrow> d) \<noteq> cmd ! 2
         then fail channel s
         else (Inr True, run_proxy channel s))
      else fail channel s)"

text \<open>
  Rule 3, the legacy shell expression (lines 224--253). The loop over the fragments of
  \<^verbatim>\<open>parse_cmd.split("if ")\<close> collects the candidate subcommands;
  \<^verbatim>\<open>shlex.split(then_str)\<close> may raise.
\<close>

fun collect_subcommands :: "string list \<Rightarrow> string list \<Rightarrow> error + string list" where
  "collect_subcommands subcommands [] = Inr subcommands"
| "collect_subcommands subcommands (s # rest) =
     (if (py_startswith s ''type \"xpra\"'' \<or> py_startswith s ''which \"xpra\"''
          \<or> py_startswith s ''[ -x'') \<and> 0 < py_find s ''then ''
      then
        (case py_index (py_split1 s ''then '') 1 of
           Inl e \<Rightarrow> Inl e
         | Inr then_str0 \<Rightarrow>
             (case (if 0 < py_find then_str0 '';''
                    then py_index (py_split then_str0 '';'') 0 else Inr then_str0) of
                Inl e \<Rightarrow> Inl e
              | Inr then_str \<Rightarrow>
                  (case shlex_split then_str of
                     Inl e \<Rightarrow> Inl e
                   | Inr parts \<Rightarrow>
                       if 2 \<le> length parts
                       then collect_subcommands (subcommands @ [parts ! 1]) rest
                       else collect_subcommands subcommands rest)))
      else collect_subcommands subcommands rest)"

definition parse_cmd :: "string list \<Rightarrow> string" where
  "parse_cmd cmd =
     (if length cmd = 1 then cmd ! 0
      else if length cmd = 3 \<and> take 2 cmd = [''sh'', ''-c''] then cmd ! 2
      else [])"

definition legacy_rule ::
  "('w, 't) env \<Rightarrow> chan \<Rightarrow> string list \<Rightarrow> 'w server \<Rightarrow> (error + bool) \<times> 'w server"
where
  "legacy_rule E channel cmd s =
     (case collect_subcommands [] (py_split (parse_cmd cmd) ''if '') of
        Inl e \<Rightarrow> (Inl e, s)
      | Inr subcommands \<Rightarrow>
          if subcommands \<noteq> [] \<and> py_index (set_iter E subcommands) 0 = Inr ''_proxy''
          then (Inr True, run_proxy channel s)
          else fail channel s)"

text \<open>
  The method itself: tokenize, read \<^verbatim>\<open>cmd[0]\<close> (an \<open>IndexError\<close> when there is no
  token), and dispatch in the order of the source.
\<close>

definition check_channel_exec_request ::
  "('w, 't) env \<Rightarrow> chan \<Rightarrow> string \<Rightarrow> 'w server \<Rightarrow> (error + bool) \<times> 'w server"
where
  "check_channel_exec_request E channel command s =
     (case shlex_split (decode_str E command) of
        Inl e \<Rightarrow> (Inl e, s)
      | Inr cmd \<Rightarrow>
          (case py_index cmd 0 of
             Inl e \<Rightarrow> (Inl e, s)
           | Inr cmd0 \<Rightarrow>
               if cmd0 \<in> {''type'', ''which'', ''command''} \<and> length cmd \<in> {2, 3}
               then probe_rule E channel cmd s
               else if py_endswith cmd0 ''xpra'' \<and> 2 \<le> length cmd
               then xpra_rule E channel cmd s
               else legacy_rule E channel cmd s))"

section \<open>make\_ssh\_server\_connection\<close>

text \<open>
  The bootstrap runs in three stages, each decided by the SSH protocol engine and the
  file system. Stage 1 is the first \<^verbatim>\<open>try\<close> block (create the transport, load the
  host keys, start the server): it raises \<^verbatim>\<open>SSHException\<close> or \<^verbatim>\<open>EOFError\<close>
  (before or after the transport \<^verbatim>\<open>t\<close> exists), finds no host key, or succeeds.
  Stage 2 is \<^verbatim>\<open>t.accept(SERVER_WAIT)\<close>: it raises, answers \<^verbatim>\<open>None\<close>, or a
  channel. Stage 3 waits for the event; \<open>timedout\<close> is the negated answer of
  \<^verbatim>\<open>event.wait\<close>, and the server object is read as the callbacks left it.
\<close>

datatype start_result = StartRaised bool | NoHostKeys | Started

datatype accept_result = AcceptRaised | AcceptNone | Accepted chan

datatype conn_action = TransportClose | ConnClose | ConnSetActive bool | WarnTimeout

record raw_conn =
  socket :: nat
  local :: string
  endpoint :: string
  target :: string

datatype connection = SSHSocketConnection chan nat string string string

text \<open>
  \<^verbatim>\<open>
  def close():
      if t:
          t.close()
      conn.close()
  \<close>
\<close>

definition close_conn :: "bool \<Rightarrow> conn_action list" where
  "close_conn t = (if t then [TransportClose] else []) @ [ConnClose]"

definition make_ssh_server_connection ::
  "raw_conn \<Rightarrow> start_result \<Rightarrow> accept_result \<Rightarrow> bool \<Rightarrow> 'w server \<Rightarrow>
   connection option \<times> conn_action list"
where
  "make_ssh_server_connection conn started accepted timedout ssh_server =
     (case started of
        StartRaised t \<Rightarrow> (None, close_conn t)
      | NoHostKeys \<Rightarrow> (None, close_conn True)
      | Started \<Rightarrow>
          (case accepted of
             AcceptRaised \<Rightarrow> (None, close_conn True)
           | AcceptNone \<Rightarrow> (None, ConnSetActive False # close_conn True)
           | Accepted chan \<Rightarrow>
               (if \<not> event ssh_server \<or> proxy_channel ssh_server = None
                then (None, (if timedout then [WarnTimeout] else []) @ close_conn True)
                else case proxy_channel ssh_server of
                       None \<Rightarrow> (None, close_conn True)
                     | Some pc \<Rightarrow>
                         if pc \<in> set (proxy_process ssh_server) then (None, [])
                         else (Some (SSHSocketConnection pc (socket conn) (local conn)
                                        (endpoint conn) (target conn)), []))))"

section \<open>check\_auth\_publickey\<close>

text \<open>
  Python 3 keeps text (\<^verbatim>\<open>str\<close>) and binary data (\<^verbatim>\<open>bytes\<close>) apart, and the
  method mixes them: the file is opened in mode \<^verbatim>\<open>"rb"\<close>, so every line is
  \<^verbatim>\<open>bytes\<close>, while the literals it is compared with are \<^verbatim>\<open>str\<close>. The
  methods below are those of both types; with an argument of the other type they raise
  \<open>TypeError\<close>, \<^verbatim>\<open>bytes\<close> has no \<^verbatim>\<open>encode\<close>, and a \<^verbatim>\<open>str\<close> never
  equals a \<^verbatim>\<open>bytes\<close>.
\<close>

datatype pyval = PyStr string | PyBytes string

fun startswith_v :: "pyval \<Rightarrow> pyval \<Rightarrow> error + bool" where
  "startswith_v (PyStr s) (PyStr p) = Inr (py_startswith s p)"
| "startswith_v (PyBytes s) (PyBytes p) = Inr (py_startswith s p)"
| "startswith_v (PyStr s) (PyBytes p) = Inl TypeError"
| "startswith_v (PyBytes s) (PyStr p) = Inl TypeError"

fun strip_v :: "pyval \<Rightarrow> pyval \<Rightarrow> error + pyval" where
  "strip_v (PyStr s) (PyStr chars) = Inr (PyStr (py_strip chars s))"
| "strip_v (PyBytes s) (PyBytes chars) = Inr (PyBytes (py_strip chars s))"
| "strip_v (PyStr s) (PyBytes chars) = Inl TypeError"
| "strip_v (PyBytes s) (PyStr chars) = Inl TypeError"

definition bytes_whitespace :: string where
  "bytes_whitespace = [CHR '' '', CHR 0x09, CHR 0x0A, CHR 0x0D, CHR 0x0B, CHR 0x0C]"

text \<open>
  For \<^verbatim>\<open>str\<close> Python also counts the separators U+001C to U+001F, U+0085 and
  U+00A0 as whitespace (and code points beyond U+00FF, which a \<open>char\<close> cannot hold: a
  \<^verbatim>\<open>str\<close> is modelled by its code points below 256).
\<close>

definition str_whitespace :: string where
  "str_whitespace =
     bytes_whitespace @ [CHR 0x1C, CHR 0x1D, CHR 0x1E, CHR 0x1F, CHR 0x85, CHR 0xA0]"

text \<open>\<^verbatim>\<open>s.split()\<close>: the maximal runs of characters that are not whitespace.\<close>

fun py_split_ws_aux :: "string \<Rightarrow> string \<Rightarrow> string \<Rightarrow> string list" where
  "py_split_ws_aux ws piece [] = (if piece = [] then [] else [rev piece])"
| "py_split_ws_aux ws piece (c # cs) =
     (if c \<in> set ws
      then (if piece = [] then py_split_ws_aux ws [] cs
            else rev piece # py_split_ws_aux ws [] cs)
      else py_split_ws_aux ws (c # piece) cs)"

text \<open>\<^verbatim>\<open>line.strip().split()\<close>, on either type.\<close>

fun strip_split_v :: "pyval \<Rightarrow> pyval list" where
  "strip_split_v (PyStr s) =
     map PyStr (py_split_ws_aux str_whitespace [] (py_strip str_whitespace s))"
| "strip_split_v (PyBytes s) =
     map PyBytes (py_split_ws_aux bytes_whitespace [] (py_strip bytes_whitespace s))"

fun encode_ascii :: "pyval \<Rightarrow> error + string" where
  "encode_ascii (PyStr s) =
     (if list_all (\<lambda>c. (of_char c :: nat) < 128) s then Inr s else Inl ValueError)"
| "encode_ascii (PyBytes s) = Inl AttributeError"

text \<open>\<^verbatim>\<open>binascii.hexlify\<close>: two lower-case hexadecimal digits for each byte.\<close>

definition hex_digit :: "nat \<Rightarrow> char" where
  "hex_digit n = ''0123456789abcdef'' ! (n mod 16)"

definition hexlify :: "string \<Rightarrow> string" where
  "hexlify b = concat (map (\<lambda>c. [hex_digit (of_char c div 16), hex_digit (of_char c)]) b)"

text \<open>
  The host: the platform flag, the user id and the login name of the process, the lines
  of \<^verbatim>\<open>~/.ssh/authorized_keys\<close> (\<open>None\<close> when it is not an existing file),
  \<^verbatim>\<open>base64.b64decode\<close>, the configured hash names, and \<^verbatim>\<open>hashlib\<close>: a name is an
  attribute of the module or not, and the constructor applied to the key material
  raises or leads to a hexadecimal digest.
\<close>

record host =
  H_POSIX :: bool
  getuid :: nat
  getuser :: string
  authorized_keys :: "string list option"
  b64decode :: "string \<Rightarrow> error + string"
  AUTHORIZED_KEYS_HASHES :: "string list"
  hashlib :: "string \<Rightarrow> (string \<Rightarrow> error + string) option"

text \<open>
  The memory of \<^verbatim>\<open>first_time\<close>, which lives as long as the process, and the
  warnings about unsupported hashes that were logged, by hash name.
\<close>

record auth_state =
  seen :: "string list"
  warnings :: "string list"

text \<open>
  Modelled from the spec: \<^verbatim>\<open>first_time\<close> of \<^verbatim>\<open>xpra.util\<close> is not among the
  sources. The specification asks for a warning once per algorithm, not per attempt:
  the function answers \<open>True\<close> for a key that it has not been asked about before, and
  remembers the key.
\<close>

definition first_time :: "string \<Rightarrow> auth_state \<Rightarrow> bool \<times> auth_state" where
  "first_time key st =
     (if key \<in> set (seen st) then (False, st) else (True, st\<lparr>seen := key # seen st\<rparr>))"

definition warn_unsupported :: "string \<Rightarrow> auth_state \<Rightarrow> auth_state" where
  "warn_unsupported hash_algo st =
     (case first_time (''hash-'' @ hash_algo @ ''-missing'') st of
        (True, st') \<Rightarrow> st'\<lparr>warnings := warnings st' @ [hash_algo]\<rparr>
      | (False, st') \<Rightarrow> st')"

definition AUTH_SUCCESSFUL :: int where "AUTH_SUCCESSFUL = 0"
definition AUTH_FAILED :: int where "AUTH_FAILED = 2"
definition OPEN_SUCCEEDED :: int where "OPEN_SUCCEEDED = 0"

text \<open>
  The loop over the hash names (lines 118--132) for one decoded key: \<open>Inr True\<close> when a
  digest equals the fingerprint. Only \<open>ValueError\<close> is caught; a name that is not an
  attribute of \<^verbatim>\<open>hashlib\<close> raises \<open>AttributeError\<close> from \<^verbatim>\<open>getattr\<close>.
\<close>

fun hash_loop ::
  "host \<Rightarrow> string \<Rightarrow> pyval \<Rightarrow> string list \<Rightarrow> auth_state \<Rightarrow> (error + bool) \<times> auth_state"
where
  "hash_loop H key hex_fingerprint [] st = (Inr False, st)"
| "hash_loop H key hex_fingerprint (hash_algo # rest) st =
     (case hashlib H hash_algo of
        None \<Rightarrow> (Inl AttributeError, st)
      | Some hash_class \<Rightarrow>
          (case hash_class key of
             Inl ValueError \<Rightarrow>
               hash_loop H key hex_fingerprint rest (warn_unsupported hash_algo st)
           | Inl e \<Rightarrow> (Inl e, st)
           | Inr hexdigest \<Rightarrow>
               if PyStr hexdigest = hex_fingerprint then (Inr True, st)
               else hash_loop H key hex_fingerprint rest st))"

text \<open>
  The body of the \<^verbatim>\<open>try\<close> of lines 113--117; whatever it raises is caught and the
  line is ignored.
\<close>

definition decode_line :: "host \<Rightarrow> pyval \<Rightarrow> error + string" where
  "decode_line H line =
     (case py_index (strip_split_v line) 1 of
        Inl e \<Rightarrow> Inl e
      | Inr field \<Rightarrow>
          (case encode_ascii field of
             Inl e \<Rightarrow> Inl e
           | Inr b \<Rightarrow> b64decode H b))"

fun lines_loop ::
  "host \<Rightarrow> pyval \<Rightarrow> pyval list \<Rightarrow> auth_state \<Rightarrow> (error + int) \<times> auth_state"
where
  "lines_loop H hex_fingerprint [] st = (Inr AUTH_FAILED, st)"
| "lines_loop H hex_fingerprint (line # rest) st =
     (case startswith_v line (PyStr ''#'') of
        Inl e \<Rightarrow> (Inl e, st)
      | Inr True \<Rightarrow> lines_loop H hex_fingerprint rest st
      | Inr False \<Rightarrow>
          (case strip_v line (PyStr [CHR 0x0A, CHR 0x0D]) of
             Inl e \<Rightarrow> (Inl e, st)
           | Inr line' \<Rightarrow>
               (case decode_line H line' of
                  Inl e \<Rightarrow> lines_loop H hex_fingerprint rest st
                | Inr key \<Rightarrow>
                    (case hash_loop H key hex_fingerprint (AUTHORIZED_KEYS_HASHES H) st of
                       (Inl e, st') \<Rightarrow> (Inl e, st')
                     | (Inr True, st') \<Rightarrow> (Inr OPEN_SUCCEEDED, st')
                     | (Inr False, st') \<Rightarrow> lines_loop H hex_fingerprint rest st'))))"

text \<open>
  The method: \<open>fingerprint\<close> is \<^verbatim>\<open>key.get_fingerprint()\<close> of the presented key.
\<close>

definition check_auth_publickey ::
  "host \<Rightarrow> 'w server \<Rightarrow> string \<Rightarrow> string \<Rightarrow> auth_state \<Rightarrow> (error + int) \<times> auth_state"
where
  "check_auth_publickey H self username fingerprint st =
     (if \<not> pubkey_auth self then (Inr AUTH_FAILED, st)
      else if (\<not> H_POSIX H \<or> getuid H \<noteq> 0) \<and> getuser H \<noteq> username
      then (Inr AUTH_FAILED, st)
      else case authorized_keys H of
             None \<Rightarrow> (Inr AUTH_FAILED, st)
           | Some file_lines \<Rightarrow>
               lines_loop H (PyBytes (hexlify fingerprint)) (map PyBytes file_lines) st)"

section \<open>An example host\<close>

text \<open>
  \<^verbatim>\<open>SSHServer.__init__\<close>: the event is not set, no proxy channel is stashed, and the
  object has no \<^verbatim>\<open>display_name\<close> attribute yet.
\<close>

definition SSHServer_init :: "bool \<Rightarrow> bool \<Rightarrow> (string \<rightharpoonup> string) \<Rightarrow> 'w \<Rightarrow> 'w server" where
  "SSHServer_init none pubkey opts w =
     \<lparr>event = False, none_auth = none, pubkey_auth = pubkey, proxy_channel = None,
      options = opts, display_name = None, proxy_process = [], trace = [], world = w\<rparr>"

text \<open>
  A concrete host on which the definitions can be run: the world is a counter of the
  calls made to the outside, the clock advances one second per call (whole seconds, on
  which the subtraction of doubles is exact), a channel accepts
  every buffer whole, \<^verbatim>\<open>set\<close> iterates in the order of first insertion, and
  \<^verbatim>\<open>parse_bool\<close> knows the words for true.
\<close>

definition example_env :: "(nat, nat) env" where
  "example_env =
     \<lparr>POSIX = True,
      WIN32 = False,
      monotonic = (\<lambda>n. (n, n + 1)),
      elapsed_lt = (\<lambda>now start timeout. int now - int start < timeout),
      channel_send = (\<lambda>c d n. (Inr (length d), n + 1)),
      channel_send_stderr = (\<lambda>c d n. (Inr (length d), n + 1)),
      osexpand = (\<lambda>x. x),
      decode_str = (\<lambda>x. x),
      parse_bool = (\<lambda>k v d. case v of None \<Rightarrow> d
                                | Some x \<Rightarrow> x \<in> {''yes'', ''true'', ''1'', ''on''}),
      get_xpra_command = [''xpra''],
      popen_communicate = (\<lambda>cmd n. (Inr (''xpra is /usr/bin/xpra'', [], 0), n + 1)),
      popen_spawn = (\<lambda>cmd n. (None, n + 1)),
      set_iter = (\<lambda>xs. rev (remdups (rev xs)))\<rparr>"

definition example_server :: "nat server" where
  "example_server = (SSHServer_init False True Map.empty 0)\<lparr>display_name := Some '':10''\<rparr>"

text \<open>
  The account \<^verbatim>\<open>alice\<close> with one authorized key, whose base64 text \<^verbatim>\<open>a2V5\<close>
  decodes to the three bytes \<^verbatim>\<open>key\<close>. \<^verbatim>\<open>hashlib\<close> knows the six default
  names; the MD5 digest of the key material is the real one, the other digests are
  stand-ins. \<open>example_fingerprint\<close> is the MD5 fingerprint of that key, as
  \<^verbatim>\<open>key.get_fingerprint()\<close> gives it: the sixteen raw bytes.
\<close>

definition example_host :: host where
  "example_host =
     \<lparr>H_POSIX = True,
      getuid = 1000,
      getuser = ''alice'',
      authorized_keys = Some [''ssh-rsa a2V5 alice@example'' @ [CHR 0x0A]],
      b64decode = (\<lambda>b. if b = ''a2V5'' then Inr ''key'' else Inl Base64Error),
      AUTHORIZED_KEYS_HASHES = [''md5'', ''sha1'', ''sha224'', ''sha256'', ''sha384'', ''sha512''],
      hashlib = (\<lambda>name.
         if name = ''md5''
         then Some (\<lambda>k. Inr (if k = ''key'' then ''3c6e0b8a9c15224a8228b9a98ca1531d''
                                else ''d41d8cd98f00b204e9800998ecf8427e''))
         else if name \<in> {''sha1'', ''sha224'', ''sha256'', ''sha384'', ''sha512''}
         then Some (\<lambda>k. Inr (name @ '':'' @ hexlify k))
         else None)\<rparr>"

definition example_fingerprint :: string where
  "example_fingerprint =
     [CHR 0x3c, CHR 0x6e, CHR 0x0b, CHR 0x8a, CHR 0x9c, CHR 0x15, CHR 0x22, CHR 0x4a,
      CHR 0x82, CHR 0x28, CHR 0xb9, CHR 0xa9, CHR 0x8c, CHR 0xa1, CHR 0x53, CHR 0x1d]"

text \<open>
  The same host with SHA-1 switched off (its constructor raises \<open>ValueError\<close>) and
  configured to try SHA-1 before MD5.
\<close>

definition example_host_without_sha1 :: host where
  "example_host_without_sha1 =
     example_host\<lparr>AUTHORIZED_KEYS_HASHES := [''sha1'', ''md5''],
                  hashlib := (\<lambda>name. if name = ''sha1'' then Some (\<lambda>k. Inl ValueError)
                                      else hashlib example_host name)\<rparr>"

text \<open>
  Every hash name was warned about at most once, and \<^verbatim>\<open>first_time\<close> remembers each
  of them.
\<close>

definition warned_once :: "auth_state \<Rightarrow> bool" where
  "warned_once st =
     (distinct (warnings st)
      \<and> (\<forall>a \<in> set (warnings st). ''hash-'' @ a @ ''-missing'' \<in> set (seen st)))"

section \<open>Properties of chan\_send\<close>













section \<open>Properties of the proxy-channel slot\<close>

lemma run_proxy_fields:
  "proxy_channel (run_proxy c s) = Some c"
  "event (run_proxy c s)"
  "trace (run_proxy c s) = trace s @ (case proxy_channel s of None \<Rightarrow> [] | Some pc \<Rightarrow> [ChanClose pc])"
  "proxy_process (run_proxy c s) = proxy_process s"
  "world (run_proxy c s) = world s"
  by (simp_all add: run_proxy_def Let_def split: option.splits)

lemma run_proxy_sequence_trace:
  "trace (foldl (\<lambda>s c. run_proxy c s) s (cs @ [c])) =
     trace s @ (case proxy_channel s of None \<Rightarrow> [] | Some pc \<Rightarrow> [ChanClose pc]) @ map ChanClose cs
   \<and> proxy_channel (foldl (\<lambda>s c. run_proxy c s) s (cs @ [c])) = Some c
   \<and> event (foldl (\<lambda>s c. run_proxy c s) s (cs @ [c]))"
proof (induction cs arbitrary: c rule: rev_induct)
  case Nil
  show ?case by (simp add: run_proxy_fields)
next
  case (snoc x xs)
  from snoc[of x] show ?case by (simp add: run_proxy_fields)
qed

text \<open>
  C7. The slot \<open>proxy_channel\<close> holds at most one channel. After any non-empty sequence
  \<open>cs\<close> of calls to \<open>_run_proxy\<close> on one server object, the slot holds the last channel
  of the sequence, the event is set, and the trace has grown by exactly the closing of
  the channel that was stashed before the sequence (if any) and of every channel of the
  sequence but the last, in this order: every displaced channel has been closed.
\<close>

theorem run_proxy_single_slot:
  assumes "cs \<noteq> []"
  shows "proxy_channel (foldl (\<lambda>s c. run_proxy c s) s cs) = Some (last cs)
    \<and> event (foldl (\<lambda>s c. run_proxy c s) s cs)
    \<and> trace (foldl (\<lambda>s c. run_proxy c s) s cs) =
        trace s @ (case proxy_channel s of None \<Rightarrow> [] | Some pc \<Rightarrow> [ChanClose pc])
          @ map ChanClose (butlast cs)
    \<and> (\<forall>c \<in> set (butlast cs). ChanClose c \<in> set (trace (foldl (\<lambda>s c. run_proxy c s) s cs)))
    \<and> (\<forall>pc. proxy_channel s = Some pc \<longrightarrow>
           ChanClose pc \<in> set (trace (foldl (\<lambda>s c. run_proxy c s) s cs)))"
proof -
  from assms obtain xs x where cs: "cs = xs @ [x]" by (metis rev_exhaust)
  from run_proxy_sequence_trace[of s xs x] show ?thesis
    unfolding cs by (auto split: option.splits)
qed

theorem run_proxy_single_slot_witness:
  "proxy_channel (foldl (\<lambda>s c. run_proxy c s) example_server [1, 2, 3]) = Some 3
   \<and> trace (foldl (\<lambda>s c. run_proxy c s) example_server [1, 2, 3]) = [ChanClose 1, ChanClose 2]"
  using run_proxy_single_slot[of "[1, 2, 3]" example_server]
  by (simp add: example_server_def SSHServer_init_def)


section \<open>Properties of make\_ssh\_server\_connection\<close>

text \<open>
  C8. The bootstrap returns a connection object if and only if stage 1 started the
  server, stage 2 accepted a channel, the event is set, and a proxy channel without a
  subprocess is recorded; the object then wraps that proxy channel and nothing is closed.
  If the event is not set or no proxy channel is recorded, the transport and the
  connection are closed and the result is \<open>None\<close>. If the recorded proxy channel carries
  a subprocess, the result is \<open>None\<close> and nothing is closed. Every failure of the
  earlier stages answers \<open>None\<close> and closes the connection.
\<close>

theorem bootstrap_returns_connection_only_on_direct_handoff:
  "(fst (make_ssh_server_connection conn started accepted timedout s) \<noteq> None \<longleftrightarrow>
      started = Started \<and> (\<exists>chan. accepted = Accepted chan) \<and> event s
      \<and> (\<exists>pc. proxy_channel s = Some pc \<and> pc \<notin> set (proxy_process s)))
   \<and> (\<forall>c. fst (make_ssh_server_connection conn started accepted timedout s) = Some c \<longrightarrow>
        (\<exists>pc. proxy_channel s = Some pc
           \<and> c = SSHSocketConnection pc (socket conn) (local conn) (endpoint conn) (target conn))
        \<and> snd (make_ssh_server_connection conn started accepted timedout s) = [])
   \<and> (started = Started \<and> (\<exists>chan. accepted = Accepted chan) \<longrightarrow>
        ((\<not> event s \<or> proxy_channel s = None) \<longrightarrow>
           make_ssh_server_connection conn started accepted timedout s
             = (None, (if timedout then [WarnTimeout] else []) @ [TransportClose, ConnClose]))
        \<and> (event s \<and> (\<exists>pc. proxy_channel s = Some pc \<and> pc \<in> set (proxy_process s)) \<longrightarrow>
           make_ssh_server_connection conn started accepted timedout s = (None, [])))
   \<and> (started \<noteq> Started \<or> (\<forall>chan. accepted \<noteq> Accepted chan) \<longrightarrow>
        fst (make_ssh_server_connection conn started accepted timedout s) = None
        \<and> ConnClose \<in> set (snd (make_ssh_server_connection conn started accepted timedout s)))"
  by (cases started; cases accepted)
     (auto simp: make_ssh_server_connection_def close_conn_def split: option.splits)


theorem bootstrap_returns_connection_only_on_direct_handoff_witness:
  "fst (make_ssh_server_connection
      \<lparr>socket = 7, local = ''local'', endpoint = ''peer'', target = ''target''\<rparr>
      Started (Accepted 1) False (run_proxy 1 example_server))
     = Some (SSHSocketConnection 1 7 ''local'' ''peer'' ''target'')
   \<and> make_ssh_server_connection
      \<lparr>socket = 7, local = ''local'', endpoint = ''peer'', target = ''target''\<rparr>
      Started (Accepted 1) True example_server
     = (None, [WarnTimeout, TransportClose, ConnClose])"
proof -
  let ?conn = "\<lparr>socket = 7, local = ''local'', endpoint = ''peer'', target = ''target''\<rparr>"
  let ?s = "run_proxy 1 example_server :: nat server"
  have ok: "Started = Started \<and> (\<exists>chan. Accepted 1 = Accepted chan) \<and> event ?s
      \<and> (\<exists>pc. proxy_channel ?s = Some pc \<and> pc \<notin> set (proxy_process ?s))"
    by (simp add: run_proxy_fields example_server_def SSHServer_init_def)
  from bootstrap_returns_connection_only_on_direct_handoff[of ?conn Started "Accepted 1" False ?s] ok
  obtain c where c: "fst (make_ssh_server_connection ?conn Started (Accepted 1) False ?s) = Some c"
    by blast
  with bootstrap_returns_connection_only_on_direct_handoff[of ?conn Started "Accepted 1" False ?s]
  have a: "fst (make_ssh_server_connection ?conn Started (Accepted 1) False ?s)
     = Some (SSHSocketConnection 1 7 ''local'' ''peer'' ''target'')"
    by (auto simp: run_proxy_fields)
  have no: "\<not> event example_server \<or> proxy_channel example_server = None"
    by (simp add: example_server_def SSHServer_init_def)
  from bootstrap_returns_connection_only_on_direct_handoff[of ?conn Started "Accepted 1" True example_server] no
  have b: "make_ssh_server_connection ?conn Started (Accepted 1) True example_server
     = (None, [WarnTimeout, TransportClose, ConnClose])"
    by simp
  from a b show ?thesis by simp
qed

section \<open>Properties of check\_channel\_exec\_request\<close>

lemma endswith_xpra_not_probe:
  "py_endswith c ''xpra'' \<Longrightarrow> c \<notin> {''type'', ''which'', ''command''}"
  by (auto simp: py_endswith_def)

lemma probe_not_endswith_xpra:
  "c \<in> {''type'', ''which'', ''command''} \<Longrightarrow> \<not> py_endswith c ''xpra''"
  by (auto simp: py_endswith_def)

lemma exec_request_xpra_rule:
  assumes "shlex_split (decode_str E command) = Inr cmd" and "2 \<le> length cmd"
    and "py_endswith (cmd ! 0) ''xpra''"
  shows "check_channel_exec_request E channel command s = xpra_rule E channel cmd s"
proof -
  from assms(2) have ne: "cmd \<noteq> []" by auto
  with assms endswith_xpra_not_probe[OF assms(3)] show ?thesis
    by (simp add: check_channel_exec_request_def py_index_def)
qed

text \<open>
  C10. When the command decodes to no token at all (the empty command, for one),
  \<^verbatim>\<open>cmd[0]\<close> is read before any dispatch rule is tried: the method raises
  \<open>IndexError\<close> and leaves the server as it was, which is not the rejection of \<open>fail\<close>
  (the event is not set and the channel is not closed).
\<close>

theorem empty_command_index_error:
  assumes "shlex_split (decode_str E command) = Inr []"
  shows "check_channel_exec_request E channel command s = (Inl IndexError, s)
       \<and> check_channel_exec_request E channel command s \<noteq> fail channel s"
  using assms by (simp add: check_channel_exec_request_def py_index_def fail_def)

theorem empty_command_index_error_witness:
  "shlex_split (decode_str example_env '''') = Inr []
   \<and> check_channel_exec_request example_env 1 '''' example_server = (Inl IndexError, example_server)"
proof -
  have h: "shlex_split (decode_str example_env '''') = Inr []"
    by (simp add: example_env_def shlex_split_def)
  from empty_command_index_error[OF h] h show ?thesis by simp
qed

text \<open>
  C3. When \<^verbatim>\<open>parse_bool\<close> answers false for the option \<^verbatim>\<open>proxy-start\<close> and the
  command is an xpra command whose subcommand is \<^verbatim>\<open>_proxy_start\<close>,
  \<^verbatim>\<open>_proxy_start_desktop\<close> or \<^verbatim>\<open>_proxy_shadow_start\<close>, the method returns
  \<open>False\<close>, the event is set, the channel is closed, and nothing else happens: the
  trace gains no \<open>Popen\<close>, and the outside world is untouched.
\<close>

theorem proxy_start_refused_without_permission:
  assumes "shlex_split (decode_str E command) = Inr cmd" and "2 \<le> length cmd"
    and "py_endswith (cmd ! 0) ''xpra''"
    and "py_rstrip '';'' (py_strip [CHR 0x22, CHR 0x27] (cmd ! 1))
           \<in> {''_proxy_start'', ''_proxy_start_desktop'', ''_proxy_shadow_start''}"
    and "\<not> parse_bool E ''proxy-start'' (options s ''proxy-start'') False"
  shows "check_channel_exec_request E channel command s
           = (Inr False, s\<lparr>event := True, trace := trace s @ [ChanClose channel]\<rparr>)"
  using assms(4,5) unfolding exec_request_xpra_rule[OF assms(1,2,3)]
  by (simp add: xpra_rule_def Let_def fail_def)

lemma tokens_proxy_start: "shlex_split ''xpra _proxy_start'' = Inr [''xpra'', ''_proxy_start'']"
  by (simp add: shlex_split_def shlex_whitespace_def shlex_quotes_def)
lemma tokens_proxy_start_desktop: "shlex_split ''xpra _proxy_start_desktop'' = Inr [''xpra'', ''_proxy_start_desktop'']"
  by (simp add: shlex_split_def shlex_whitespace_def shlex_quotes_def)
lemma tokens_proxy_shadow_start: "shlex_split ''xpra _proxy_shadow_start'' = Inr [''xpra'', ''_proxy_shadow_start'']"
  by (simp add: shlex_split_def shlex_whitespace_def shlex_quotes_def)

theorem proxy_start_refused_without_permission_witness:
  "check_channel_exec_request example_env 1 ''xpra _proxy_start'' example_server
     = (Inr False, example_server\<lparr>event := True, trace := [ChanClose 1]\<rparr>)
   \<and> check_channel_exec_request example_env 1 ''xpra _proxy_start_desktop'' example_server
     = (Inr False, example_server\<lparr>event := True, trace := [ChanClose 1]\<rparr>)
   \<and> check_channel_exec_request example_env 1 ''xpra _proxy_shadow_start'' example_server
     = (Inr False, example_server\<lparr>event := True, trace := [ChanClose 1]\<rparr>)"
proof -
  have d: "decode_str example_env = (\<lambda>x. x)" by (simp add: example_env_def)
  have p: "\<not> parse_bool example_env ''proxy-start'' (options example_server ''proxy-start'') False"
    by (simp add: example_env_def example_server_def SSHServer_init_def)
  have t: "trace example_server = []" by (simp add: example_server_def SSHServer_init_def)
  have a: "check_channel_exec_request example_env 1 ''xpra _proxy_start'' example_server
     = (Inr False, example_server\<lparr>event := True, trace := [ChanClose 1]\<rparr>)"
    using proxy_start_refused_without_permission[of example_env "''xpra _proxy_start''"
        "[''xpra'', ''_proxy_start'']" example_server 1] p t
    by (simp add: d tokens_proxy_start py_endswith_def py_strip_def py_rstrip_def py_lstrip_def)
  have b: "check_channel_exec_request example_env 1 ''xpra _proxy_start_desktop'' example_server
     = (Inr False, example_server\<lparr>event := True, trace := [ChanClose 1]\<rparr>)"
    using proxy_start_refused_without_permission[of example_env "''xpra _proxy_start_desktop''"
        "[''xpra'', ''_proxy_start_desktop'']" example_server 1] p t
    by (simp add: d tokens_proxy_start_desktop py_endswith_def py_strip_def py_rstrip_def py_lstrip_def)
  have c: "check_channel_exec_request example_env 1 ''xpra _proxy_shadow_start'' example_server
     = (Inr False, example_server\<lparr>event := True, trace := [ChanClose 1]\<rparr>)"
    using proxy_start_refused_without_permission[of example_env "''xpra _proxy_shadow_start''"
        "[''xpra'', ''_proxy_shadow_start'']" example_server 1] p t
    by (simp add: d tokens_proxy_shadow_start py_endswith_def py_strip_def py_rstrip_def py_lstrip_def)
  from a b c show ?thesis by simp
qed

text \<open>
  C4, as stated, fails. The display is compared only when the command has exactly three
  tokens: with two extra arguments, the first of them a display other than the server's
  own, the request is accepted and the channel becomes the proxy channel.
\<close>

theorem proxy_display_check_counterexample:
  "fst (check_channel_exec_request example_env 1 ''xpra _proxy :99 extra'' example_server) = Inr True
   \<and> proxy_channel (snd (check_channel_exec_request example_env 1 ''xpra _proxy :99 extra''
        example_server)) = Some 1
   \<and> trace (snd (check_channel_exec_request example_env 1 ''xpra _proxy :99 extra''
        example_server)) = []
   \<and> display_name example_server = Some '':10''"
  by (simp add: check_channel_exec_request_def example_env_def example_server_def
      SSHServer_init_def shlex_split_def shlex_whitespace_def shlex_quotes_def py_index_def
      py_endswith_def xpra_rule_def py_strip_def py_rstrip_def py_lstrip_def run_proxy_def)

text \<open>
  C4, amended. For an xpra command whose subcommand is \<^verbatim>\<open>_proxy\<close>: with exactly one
  extra argument the request is accepted if that argument equals the server's display
  name (the empty string when the attribute is missing) and is rejected otherwise (event
  set, channel closed, \<open>False\<close>); with no extra argument, or with two or more, no display
  is compared and the request is accepted by \<open>_run_proxy\<close>.
\<close>

theorem proxy_display_check:
  assumes "shlex_split (decode_str E command) = Inr cmd" and "2 \<le> length cmd"
    and "py_endswith (cmd ! 0) ''xpra''"
    and "py_rstrip '';'' (py_strip [CHR 0x22, CHR 0x27] (cmd ! 1)) = ''_proxy''"
  shows "check_channel_exec_request E channel command s =
     (if length cmd = 3 \<and> (case display_name s of None \<Rightarrow> [] | Some d \<Rightarrow> d) \<noteq> cmd ! 2
      then (Inr False, s\<lparr>event := True, trace := trace s @ [ChanClose channel]\<rparr>)
      else (Inr True, run_proxy channel s))"
  using assms(4) unfolding exec_request_xpra_rule[OF assms(1,2,3)]
  by (simp add: xpra_rule_def Let_def fail_def)

lemma tokens_proxy_99: "shlex_split ''xpra _proxy :99'' = Inr [''xpra'', ''_proxy'', '':99'']"
  by (simp add: shlex_split_def shlex_whitespace_def shlex_quotes_def)
lemma tokens_proxy_10: "shlex_split ''xpra _proxy :10'' = Inr [''xpra'', ''_proxy'', '':10'']"
  by (simp add: shlex_split_def shlex_whitespace_def shlex_quotes_def)
lemma tokens_proxy: "shlex_split ''xpra _proxy'' = Inr [''xpra'', ''_proxy'']"
  by (simp add: shlex_split_def shlex_whitespace_def shlex_quotes_def)

theorem proxy_display_check_witness:
  "check_channel_exec_request example_env 1 ''xpra _proxy :99'' example_server
     = (Inr False, example_server\<lparr>event := True, trace := [ChanClose 1]\<rparr>)
   \<and> check_channel_exec_request example_env 1 ''xpra _proxy :10'' example_server
     = (Inr True, run_proxy 1 example_server)
   \<and> check_channel_exec_request example_env 1 ''xpra _proxy'' example_server
     = (Inr True, run_proxy 1 example_server)"
proof -
  have d: "decode_str example_env = (\<lambda>x. x)" by (simp add: example_env_def)
  have n: "display_name example_server = Some '':10''" "trace example_server = []"
    by (simp_all add: example_server_def SSHServer_init_def)
  have a: "check_channel_exec_request example_env 1 ''xpra _proxy :99'' example_server
     = (Inr False, example_server\<lparr>event := True, trace := [ChanClose 1]\<rparr>)"
    using proxy_display_check[of example_env "''xpra _proxy :99''"
        "[''xpra'', ''_proxy'', '':99'']" 1 example_server] n
    by (simp add: d tokens_proxy_99 py_endswith_def py_strip_def py_rstrip_def py_lstrip_def)
  have b: "check_channel_exec_request example_env 1 ''xpra _proxy :10'' example_server
     = (Inr True, run_proxy 1 example_server)"
    using proxy_display_check[of example_env "''xpra _proxy :10''"
        "[''xpra'', ''_proxy'', '':10'']" 1 example_server] n
    by (simp add: d tokens_proxy_10 py_endswith_def py_strip_def py_rstrip_def py_lstrip_def)
  have c: "check_channel_exec_request example_env 1 ''xpra _proxy'' example_server
     = (Inr True, run_proxy 1 example_server)"
    using proxy_display_check[of example_env "''xpra _proxy''"
        "[''xpra'', ''_proxy'']" 1 example_server] n
    by (simp add: d tokens_proxy py_endswith_def py_strip_def py_rstrip_def py_lstrip_def)
  from a b c show ?thesis by simp
qed

text \<open>
  Rule 1 never rejects: it answers \<open>True\<close> or raises, and it neither sets the event nor
  touches the proxy channel, nor closes the channel.
\<close>

lemma send_on_keeps:
  "send_on E f data s = (r, s') \<Longrightarrow>
     event s' = event s \<and> trace s' = trace s \<and> proxy_channel s' = proxy_channel s"
  by (auto simp: send_on_def split: prod.splits)

lemma probe_rule_keeps:
  "probe_rule E channel cmd s = (r, s') \<Longrightarrow>
     r \<noteq> Inr False \<and> event s' = event s \<and> proxy_channel s' = proxy_channel s
     \<and> ChanClose channel \<notin> set (drop (length (trace s)) (trace s'))"
  by (auto simp: probe_rule_def Let_def send_exit_status_def
           split: if_splits prod.splits sum.splits dest!: send_on_keeps)

lemma legacy_rule_probe_word:
  assumes "cmd \<noteq> []" and "cmd ! 0 \<in> {''type'', ''which'', ''command''}"
    and "length cmd \<notin> {2, 3}"
  shows "legacy_rule E channel cmd s = fail channel s"
proof -
  from assms have "parse_cmd cmd \<in> {''type'', ''which'', ''command'', []}"
    by (auto simp: parse_cmd_def)
  then have "collect_subcommands [] (py_split (parse_cmd cmd) ''if '') = Inr []"
    by (auto simp: py_split_def py_startswith_def py_find_def)
  then show ?thesis by (simp add: legacy_rule_def)
qed

text \<open>
  C5. For a command whose first token is \<^verbatim>\<open>type\<close>, \<^verbatim>\<open>which\<close> or
  \<^verbatim>\<open>command\<close>: with two or three tokens the request is handled by rule 1 (it is not
  rejected, and the event stays as it was); with any other number of tokens rule 1 does
  not apply, the request falls through to the legacy rule (rule 2 asks for a first token
  ending in \<^verbatim>\<open>xpra\<close>), which finds no candidate and rejects it.
\<close>

theorem probe_rule_token_count:
  assumes "shlex_split (decode_str E command) = Inr cmd" and "cmd \<noteq> []"
    and "cmd ! 0 \<in> {''type'', ''which'', ''command''}"
  shows "(length cmd \<in> {2, 3} \<longrightarrow>
            check_channel_exec_request E channel command s = probe_rule E channel cmd s
            \<and> fst (check_channel_exec_request E channel command s) \<noteq> Inr False
            \<and> event (snd (check_channel_exec_request E channel command s)) = event s
            \<and> proxy_channel (snd (check_channel_exec_request E channel command s))
                = proxy_channel s)
       \<and> (length cmd \<notin> {2, 3} \<longrightarrow>
            check_channel_exec_request E channel command s = legacy_rule E channel cmd s
            \<and> check_channel_exec_request E channel command s
                = (Inr False, s\<lparr>event := True, trace := trace s @ [ChanClose channel]\<rparr>))"
proof -
  have disp: "check_channel_exec_request E channel command s =
      (if length cmd \<in> {2, 3} then probe_rule E channel cmd s
       else legacy_rule E channel cmd s)"
    using assms probe_not_endswith_xpra[OF assms(3)]
    by (simp add: check_channel_exec_request_def py_index_def)
  have keeps: "fst (probe_rule E channel cmd s) \<noteq> Inr False
      \<and> event (snd (probe_rule E channel cmd s)) = event s
      \<and> proxy_channel (snd (probe_rule E channel cmd s)) = proxy_channel s"
    using probe_rule_keeps[of E channel cmd s "fst (probe_rule E channel cmd s)"
        "snd (probe_rule E channel cmd s)"] by simp
  show ?thesis
    using disp keeps legacy_rule_probe_word[OF assms(2,3), of E channel s]
    by (simp add: fail_def)
qed

lemma tokens_type_xpra: "shlex_split ''type xpra'' = Inr [''type'', ''xpra'']"
  by (simp add: shlex_split_def shlex_whitespace_def shlex_quotes_def)
lemma tokens_command_v_xpra: "shlex_split ''command -v xpra'' = Inr [''command'', ''-v'', ''xpra'']"
  by (simp add: shlex_split_def shlex_whitespace_def shlex_quotes_def)
lemma tokens_which_1: "shlex_split ''which'' = Inr [''which'']"
  by (simp add: shlex_split_def shlex_whitespace_def shlex_quotes_def)
lemma tokens_which_4: "shlex_split ''which xpra foo bar'' = Inr [''which'', ''xpra'', ''foo'', ''bar'']"
  by (simp add: shlex_split_def shlex_whitespace_def shlex_quotes_def)

theorem probe_rule_token_count_witness:
  "fst (check_channel_exec_request example_env 1 ''type xpra'' example_server) \<noteq> Inr False
   \<and> \<not> event (snd (check_channel_exec_request example_env 1 ''type xpra'' example_server))
   \<and> fst (check_channel_exec_request example_env 1 ''command -v xpra'' example_server) \<noteq> Inr False
   \<and> \<not> event (snd (check_channel_exec_request example_env 1 ''command -v xpra'' example_server))
   \<and> check_channel_exec_request example_env 1 ''which'' example_server
       = (Inr False, example_server\<lparr>event := True, trace := [ChanClose 1]\<rparr>)
   \<and> check_channel_exec_request example_env 1 ''which xpra foo bar'' example_server
       = (Inr False, example_server\<lparr>event := True, trace := [ChanClose 1]\<rparr>)"
proof -
  have d: "decode_str example_env = (\<lambda>x. x)" by (simp add: example_env_def)
  have n: "\<not> event example_server" "trace example_server = []"
    by (simp_all add: example_server_def SSHServer_init_def)
  have t2: "shlex_split (decode_str example_env ''type xpra'') = Inr [''type'', ''xpra'']"
    by (simp add: d tokens_type_xpra)
  have t3: "shlex_split (decode_str example_env ''command -v xpra'')
      = Inr [''command'', ''-v'', ''xpra'']"
    by (simp add: d tokens_command_v_xpra)
  have t1: "shlex_split (decode_str example_env ''which'') = Inr [''which'']"
    by (simp add: d tokens_which_1)
  have t4: "shlex_split (decode_str example_env ''which xpra foo bar'')
      = Inr [''which'', ''xpra'', ''foo'', ''bar'']"
    by (simp add: d tokens_which_4)
  have a: "fst (check_channel_exec_request example_env 1 ''type xpra'' example_server) \<noteq> Inr False
   \<and> \<not> event (snd (check_channel_exec_request example_env 1 ''type xpra'' example_server))"
    using probe_rule_token_count[OF t2, of 1 example_server] n by auto
  have b: "fst (check_channel_exec_request example_env 1 ''command -v xpra'' example_server) \<noteq> Inr False
   \<and> \<not> event (snd (check_channel_exec_request example_env 1 ''command -v xpra'' example_server))"
    using probe_rule_token_count[OF t3, of 1 example_server] n by auto
  have c: "check_channel_exec_request example_env 1 ''which'' example_server
       = (Inr False, example_server\<lparr>event := True, trace := [ChanClose 1]\<rparr>)"
    using probe_rule_token_count[OF t1, of 1 example_server] n by auto
  have e: "check_channel_exec_request example_env 1 ''which xpra foo bar'' example_server
       = (Inr False, example_server\<lparr>event := True, trace := [ChanClose 1]\<rparr>)"
    using probe_rule_token_count[OF t4, of 1 example_server] n by auto
  from a b c e show ?thesis by blast
qed


text \<open>
  The legacy rule with no candidate rejects, and with candidates that are all the same it
  accepts exactly when that candidate is \<^verbatim>\<open>_proxy\<close>, whatever the iteration order.
\<close>

lemma legacy_rule_no_candidate:
  assumes "collect_subcommands [] (py_split (parse_cmd cmd) ''if '') = Inr []"
  shows "legacy_rule E channel cmd s = fail channel s"
  by (simp add: legacy_rule_def assms)

lemma singleton_set_first: "set ys = {p} \<Longrightarrow> \<exists>zs. ys = p # zs"
  by (cases ys) auto

lemma legacy_rule_single_candidate:
  assumes "collect_subcommands [] (py_split (parse_cmd cmd) ''if '') = Inr subcommands"
    and "set subcommands = {p}"
    and "set (set_iter E subcommands) = set subcommands"
  shows "legacy_rule E channel cmd s =
     (if p = ''_proxy'' then (Inr True, run_proxy channel s) else fail channel s)"
proof -
  from singleton_set_first[OF assms(2)] have ne: "subcommands \<noteq> []" by blast
  from assms(2,3) have "set (set_iter E subcommands) = {p}" by simp
  from singleton_set_first[OF this] obtain zs where "set_iter E subcommands = p # zs" by blast
  then have "py_index (set_iter E subcommands) 0 = Inr p" by (simp add: py_index_def)
  with ne show ?thesis by (simp add: legacy_rule_def assms(1))
qed

text \<open>
  C2. For a command that reaches the legacy rule, with \<open>subcommands\<close> the candidates
  collected from it: the handoff is performed exactly when there is a candidate and the
  element that Python yields first from \<^verbatim>\<open>set(subcommands)\<close> is \<^verbatim>\<open>_proxy\<close>;
  otherwise the request is rejected. So a single distinct candidate \<^verbatim>\<open>_proxy\<close> is
  handed off and no candidate is rejected, as intended; but the size of the set is never
  looked at, and with several distinct candidates the outcome is that of the element
  yielded first.
\<close>

theorem legacy_request_outcome:
  assumes "shlex_split (decode_str E command) = Inr cmd" and "cmd \<noteq> []"
    and "\<not> (cmd ! 0 \<in> {''type'', ''which'', ''command''} \<and> length cmd \<in> {2, 3})"
    and "\<not> (py_endswith (cmd ! 0) ''xpra'' \<and> 2 \<le> length cmd)"
    and "collect_subcommands [] (py_split (parse_cmd cmd) ''if '') = Inr subcommands"
  shows "check_channel_exec_request E channel command s =
      (if subcommands \<noteq> [] \<and> py_index (set_iter E subcommands) 0 = Inr ''_proxy''
       then (Inr True, run_proxy channel s)
       else (Inr False, s\<lparr>event := True, trace := trace s @ [ChanClose channel]\<rparr>))
    \<and> (set subcommands = {''_proxy''} \<and> set (set_iter E subcommands) = set subcommands \<longrightarrow>
         check_channel_exec_request E channel command s = (Inr True, run_proxy channel s))
    \<and> (subcommands = [] \<longrightarrow>
         check_channel_exec_request E channel command s
           = (Inr False, s\<lparr>event := True, trace := trace s @ [ChanClose channel]\<rparr>))"
proof -
  have disp: "check_channel_exec_request E channel command s = legacy_rule E channel cmd s"
    using assms(1-4) by (auto simp: check_channel_exec_request_def py_index_def)
  have out: "legacy_rule E channel cmd s =
      (if subcommands \<noteq> [] \<and> py_index (set_iter E subcommands) 0 = Inr ''_proxy''
       then (Inr True, run_proxy channel s)
       else (Inr False, s\<lparr>event := True, trace := trace s @ [ChanClose channel]\<rparr>))"
    by (simp add: legacy_rule_def assms(5) fail_def)
  have single: "legacy_rule E channel cmd s = (Inr True, run_proxy channel s)"
    if "set subcommands = {''_proxy''}" and "set (set_iter E subcommands) = set subcommands"
    using legacy_rule_single_candidate[OF assms(5) that] by simp
  have none: "legacy_rule E channel cmd s
      = (Inr False, s\<lparr>event := True, trace := trace s @ [ChanClose channel]\<rparr>)"
    if "subcommands = []"
    using out that by simp
  from disp out single none show ?thesis by presburger
qed

text \<open>
  The two branches of this command name the candidates \<^verbatim>\<open>_proxy\<close> and
  \<^verbatim>\<open>start\<close>. On a host where the set yields \<^verbatim>\<open>_proxy\<close> first the request is
  not rejected: the method answers \<open>True\<close> and the channel is stashed as the proxy
  channel, with nothing closed.
\<close>

theorem legacy_rule_two_candidates_accepted:
  "check_channel_exec_request example_env 1
      ''sh -c \"if [ -x /a ]; then /a _proxy; elif [ -x /b ]; then /b start; fi\"''
      example_server = (Inr True, run_proxy 1 example_server)
   \<and> shlex_split
        ''sh -c \"if [ -x /a ]; then /a _proxy; elif [ -x /b ]; then /b start; fi\"''
      = Inr [''sh'', ''-c'', ''if [ -x /a ]; then /a _proxy; elif [ -x /b ]; then /b start; fi'']
   \<and> collect_subcommands []
     (py_split ''if [ -x /a ]; then /a _proxy; elif [ -x /b ]; then /b start; fi'' ''if '')
     = Inr [''_proxy'', ''start'']
   \<and> set_iter example_env [''_proxy'', ''start''] = [''_proxy'', ''start'']
   \<and> proxy_channel (run_proxy 1 example_server) = Some 1
   \<and> trace (run_proxy 1 example_server) = []"
proof -
  let ?long = "''if [ -x /a ]; then /a _proxy; elif [ -x /b ]; then /b start; fi''"
  let ?command = "''sh -c \"if [ -x /a ]; then /a _proxy; elif [ -x /b ]; then /b start; fi\"''"
  have t: "shlex_split (decode_str example_env ?command) = Inr [''sh'', ''-c'', ?long]"
    by code_simp
  have n: "[''sh'', ''-c'', ?long] \<noteq> []" by simp
  have r1: "\<not> ([''sh'', ''-c'', ?long] ! 0 \<in> {''type'', ''which'', ''command''}
      \<and> length [''sh'', ''-c'', ?long] \<in> {2, 3})"
    by code_simp
  have r2: "\<not> (py_endswith ([''sh'', ''-c'', ?long] ! 0) ''xpra''
      \<and> 2 \<le> length [''sh'', ''-c'', ?long])"
    by code_simp
  have c: "collect_subcommands [] (py_split (parse_cmd [''sh'', ''-c'', ?long]) ''if '')
      = Inr [''_proxy'', ''start'']"
    by code_simp
  have i: "[''_proxy'', ''start''] \<noteq> []
      \<and> py_index (set_iter example_env [''_proxy'', ''start'']) 0 = Inr ''_proxy''"
    by code_simp
  have l: "check_channel_exec_request example_env 1 ?command example_server
      = (Inr True, run_proxy 1 example_server)"
    using legacy_request_outcome[OF t n r1 r2 c, of 1 example_server] i by presburger
  have r: "shlex_split ?command = Inr [''sh'', ''-c'', ?long]
   \<and> collect_subcommands [] (py_split ?long ''if '') = Inr [''_proxy'', ''start'']
   \<and> set_iter example_env [''_proxy'', ''start''] = [''_proxy'', ''start'']
   \<and> proxy_channel (run_proxy 1 example_server) = Some 1
   \<and> trace (run_proxy 1 example_server) = []"
    by code_simp
  from l r show ?thesis by (rule conjI)
qed

text \<open>
  The command that a plain ssh client sends, with its escaped quotation marks: one
  candidate, \<^verbatim>\<open>_proxy\<close>, and the handoff.
\<close>

lemma legacy_scenario_handoff:
  "shlex_split (''sh -c \": run-xpra _proxy;xpra initenv; if type '' @ [CHR 0x5C, CHR 0x22]
        @ ''xpra'' @ [CHR 0x5C, CHR 0x22] @ '' > /dev/null 2>&1; then xpra _proxy; fi\"'')
     = Inr [''sh'', ''-c'',
        '': run-xpra _proxy;xpra initenv; if type \"xpra\" > /dev/null 2>&1; then xpra _proxy; fi'']
   \<and> collect_subcommands [] (py_split
        '': run-xpra _proxy;xpra initenv; if type \"xpra\" > /dev/null 2>&1; then xpra _proxy; fi''
        ''if '') = Inr [''_proxy'']
   \<and> fst (check_channel_exec_request example_env 1
       (''sh -c \": run-xpra _proxy;xpra initenv; if type '' @ [CHR 0x5C, CHR 0x22]
        @ ''xpra'' @ [CHR 0x5C, CHR 0x22] @ '' > /dev/null 2>&1; then xpra _proxy; fi\"'')
       example_server) = Inr True"
  by code_simp


section \<open>Properties of check\_auth\_publickey\<close>

text \<open>
  The lines of the file are \<^verbatim>\<open>bytes\<close>, and \<^verbatim>\<open>line.startswith("#")\<close> with a
  \<^verbatim>\<open>str\<close> argument raises \<open>TypeError\<close> outside any \<^verbatim>\<open>try\<close>: the method
  raises at the first line of a non-empty file and fails on every other path. It never
  answers success.
\<close>

lemma lines_loop_bytes:
  "lines_loop H fp (map PyBytes (l # ls)) st = (Inl TypeError, st)"
  by simp

lemma check_auth_publickey_outcome:
  "check_auth_publickey H self username fingerprint st =
     (if pubkey_auth self \<and> \<not> ((\<not> H_POSIX H \<or> getuid H \<noteq> 0) \<and> getuser H \<noteq> username)
         \<and> (\<exists>l ls. authorized_keys H = Some (l # ls))
      then (Inl TypeError, st) else (Inr AUTH_FAILED, st))"
proof (cases "authorized_keys H")
  case None
  then show ?thesis by (simp add: check_auth_publickey_def)
next
  case (Some ls)
  then show ?thesis by (cases ls) (simp_all add: check_auth_publickey_def)
qed

text \<open>
  The loop over the lines does what it is meant to do when the lines and the fingerprint
  are both text: a comment line is passed over, the entry of the presented key is found,
  and another key is refused. With the fingerprint as \<^verbatim>\<open>hexlify\<close> gives it
  (\<^verbatim>\<open>bytes\<close>) no digest ever equals it; with a line as the file gives it
  (\<^verbatim>\<open>bytes\<close>), \<^verbatim>\<open>strip\<close> raises and the field has no \<^verbatim>\<open>encode\<close>.
\<close>

lemma lines_loop_on_text:
  "fst (lines_loop example_host (PyStr (hexlify example_fingerprint))
          [PyStr (''# keys of alice'' @ [CHR 0x0A]),
           PyStr (''ssh-rsa a2V5 alice@example'' @ [CHR 0x0A])]
          \<lparr>seen = [], warnings = []\<rparr>) = Inr OPEN_SUCCEEDED
   \<and> fst (lines_loop example_host (PyStr ''00000000000000000000000000000000'')
          [PyStr (''# keys of alice'' @ [CHR 0x0A]),
           PyStr (''ssh-rsa a2V5 alice@example'' @ [CHR 0x0A])]
          \<lparr>seen = [], warnings = []\<rparr>) = Inr AUTH_FAILED
   \<and> fst (lines_loop example_host (PyBytes (hexlify example_fingerprint))
          [PyStr (''ssh-rsa a2V5 alice@example'' @ [CHR 0x0A])]
          \<lparr>seen = [], warnings = []\<rparr>) = Inr AUTH_FAILED
   \<and> decode_line example_host (PyBytes ''ssh-rsa a2V5 alice@example'') = Inl AttributeError
   \<and> strip_v (PyBytes (''ssh-rsa a2V5 alice@example'' @ [CHR 0x0A])) (PyStr [CHR 0x0A, CHR 0x0D])
        = Inl TypeError"
  by code_simp

text \<open>
  C1. The method never answers success. When public-key authentication is allowed, the
  user name check passes and the authorized-keys file has at least one line, it raises
  \<open>TypeError\<close>, whatever the file holds and whatever key is presented: also when a line
  of the file holds the presented key.
\<close>

theorem check_auth_publickey_never_succeeds:
  "fst (check_auth_publickey H self username fingerprint st) \<noteq> Inr AUTH_SUCCESSFUL
   \<and> fst (check_auth_publickey H self username fingerprint st) \<noteq> Inr OPEN_SUCCEEDED
   \<and> (pubkey_auth self \<and> \<not> ((\<not> H_POSIX H \<or> getuid H \<noteq> 0) \<and> getuser H \<noteq> username)
        \<and> authorized_keys H = Some (l # ls) \<longrightarrow>
      check_auth_publickey H self username fingerprint st = (Inl TypeError, st))"
  by (simp add: check_auth_publickey_outcome AUTH_FAILED_def AUTH_SUCCESSFUL_def
      OPEN_SUCCEEDED_def)

text \<open>
  On the example host the file holds the presented key: the decoded key material of its
  only line hashes under MD5 to the hexadecimal fingerprint of the presented key. The
  method raises \<open>TypeError\<close>.
\<close>

theorem authorized_key_raises_type_error:
  "check_auth_publickey example_host example_server ''alice'' example_fingerprint
      \<lparr>seen = [], warnings = []\<rparr> = (Inl TypeError, \<lparr>seen = [], warnings = []\<rparr>)
   \<and> pubkey_auth example_server \<and> getuser example_host = ''alice''
   \<and> authorized_keys example_host = Some [''ssh-rsa a2V5 alice@example'' @ [CHR 0x0A]]
   \<and> b64decode example_host ''a2V5'' = Inr ''key''
   \<and> map_option (\<lambda>hash_class. hash_class ''key'') (hashlib example_host ''md5'')
        = Some (Inr (hexlify example_fingerprint))"
proof -
  have side: "pubkey_auth example_server \<and> getuser example_host = ''alice''
   \<and> authorized_keys example_host = Some [''ssh-rsa a2V5 alice@example'' @ [CHR 0x0A]]
   \<and> b64decode example_host ''a2V5'' = Inr ''key''
   \<and> map_option (\<lambda>hash_class. hash_class ''key'') (hashlib example_host ''md5'')
        = Some (Inr (hexlify example_fingerprint))"
    by code_simp
  from check_auth_publickey_never_succeeds[of example_host example_server "''alice''"
      example_fingerprint "\<lparr>seen = [], warnings = []\<rparr>"
      "''ssh-rsa a2V5 alice@example'' @ [CHR 0x0A]" "[]"] side
  show ?thesis by blast
qed

text \<open>
  The loop over the hash names, taken alone. A name whose constructor raises
  \<open>ValueError\<close> is passed over, with a warning when \<^verbatim>\<open>first_time\<close> has not seen
  it; a name that is not an attribute of \<^verbatim>\<open>hashlib\<close> raises \<open>AttributeError\<close>,
  which the handler does not catch. The warnings stay at most one per hash name.
\<close>

lemma hash_loop_unknown_name_raises:
  "fst (hash_loop example_host ''key'' (PyBytes (hexlify example_fingerprint))
          [''ripemd160'', ''md5''] \<lparr>seen = [], warnings = []\<rparr>) = Inl AttributeError
   \<and> hashlib example_host ''ripemd160'' = None"
  by code_simp

lemma warn_unsupported_warnings:
  "warnings (warn_unsupported a st) =
     (if ''hash-'' @ a @ ''-missing'' \<in> set (seen st) then warnings st else warnings st @ [a])"
  "''hash-'' @ a @ ''-missing'' \<in> set (seen (warn_unsupported a st))"
  "set (seen st) \<subseteq> set (seen (warn_unsupported a st))"
  by (auto simp: warn_unsupported_def first_time_def)

lemma warn_unsupported_once:
  assumes "warned_once st"
  shows "warned_once (warn_unsupported a st)"
proof (cases "''hash-'' @ a @ ''-missing'' \<in> set (seen st)")
  case True
  with assms show ?thesis by (simp add: warn_unsupported_def first_time_def)
next
  case False
  with assms have "a \<notin> set (warnings st)" by (auto simp: warned_once_def)
  with assms False show ?thesis
    by (auto simp: warned_once_def warn_unsupported_def first_time_def)
qed

lemma hash_loop_once:
  "warned_once st \<Longrightarrow> warned_once (snd (hash_loop H key fp hs st))"
proof (induction hs arbitrary: st)
  case Nil
  then show ?case by simp
next
  case (Cons h hs)
  show ?case
  proof (cases "hashlib H h")
    case None
    with Cons.prems show ?thesis by simp
  next
    case (Some hash_class)
    show ?thesis
    proof (cases "hash_class key")
      case (Inl e)
      with Some Cons.prems Cons.IH[OF warn_unsupported_once[OF Cons.prems, of h]]
      show ?thesis by (cases e) simp_all
    next
      case (Inr d)
      with Some Cons.prems Cons.IH[OF Cons.prems] show ?thesis by simp
    qed
  qed
qed

lemma hash_loop_once_result:
  "hash_loop H key fp hs st = (r, st') \<Longrightarrow> warned_once st \<Longrightarrow> warned_once st'"
  using hash_loop_once[of st H key fp hs] by simp

lemma lines_loop_once:
  "warned_once st \<Longrightarrow> warned_once (snd (lines_loop H fp ls st))"
proof (induction H fp ls st rule: lines_loop.induct)
  case (1 H hex_fingerprint st)
  then show ?case by simp
next
  case (2 H hex_fingerprint line rest st)
  show ?case
  proof (cases "startswith_v line (PyStr ''#'')")
    case (Inl e)
    with "2.prems" show ?thesis by simp
  next
    case sw: (Inr b)
    show ?thesis
    proof (cases b)
      case True
      with sw "2.IH"(1) "2.prems" show ?thesis by simp
    next
      case False
      show ?thesis
      proof (cases "strip_v line (PyStr [CHR 0x0A, CHR 0x0D])")
        case (Inl e)
        with sw False "2.prems" show ?thesis by simp
      next
        case st: (Inr line')
        show ?thesis
        proof (cases "decode_line H line'")
          case (Inl e)
          with sw False st "2.IH"(2) "2.prems" show ?thesis by simp
        next
          case dl: (Inr key)
          obtain r st' where hl:
            "hash_loop H key hex_fingerprint (AUTHORIZED_KEYS_HASHES H) st = (r, st')"
            by (cases "hash_loop H key hex_fingerprint (AUTHORIZED_KEYS_HASHES H) st")
          from hash_loop_once_result[OF hl "2.prems"] have w: "warned_once st'" .
          show ?thesis
          proof (cases r)
            case (Inl e)
            with sw False st dl hl w show ?thesis by simp
          next
            case (Inr m)
            show ?thesis
            proof (cases m)
              case True
              with sw False st dl hl w Inr show ?thesis by simp
            next
              case nm: False
              from "2.IH"(3)[OF sw[unfolded False] _ st dl hl[symmetric, unfolded Inr nm] refl _ w]
                False nm
              have "warned_once (snd (lines_loop H hex_fingerprint rest st'))" by simp
              with sw False st dl hl Inr nm show ?thesis by simp
            qed
          qed
        qed
      qed
    qed
  qed
qed

lemma distinct_count_le_1: "distinct xs \<Longrightarrow> count_list xs a \<le> 1"
  by (induction xs) auto

lemma check_auth_publickey_once:
  "warned_once st \<Longrightarrow> warned_once (snd (check_auth_publickey H self username fingerprint st))"
  by (simp add: check_auth_publickey_def lines_loop_once split: option.splits)

lemma hash_loop_skips_value_error:
  assumes "hashlib H hash_algo = Some hash_class" and "hash_class key = Inl ValueError"
  shows "hash_loop H key fp (hash_algo # rest) st
           = hash_loop H key fp rest (warn_unsupported hash_algo st)
     \<and> warnings (warn_unsupported hash_algo st) =
         (if ''hash-'' @ hash_algo @ ''-missing'' \<in> set (seen st) then warnings st
          else warnings st @ [hash_algo])
     \<and> (warned_once st \<longrightarrow>
          warned_once (snd (hash_loop H key fp (hash_algo # rest) st))
          \<and> count_list (warnings (snd (hash_loop H key fp (hash_algo # rest) st))) hash_algo \<le> 1)"
proof -
  have a: "hash_loop H key fp (hash_algo # rest) st
           = hash_loop H key fp rest (warn_unsupported hash_algo st)"
    using assms by simp
  have c: "count_list (warnings (snd (hash_loop H key fp (hash_algo # rest) st))) hash_algo \<le> 1"
    if w: "warned_once st"
  proof -
    from hash_loop_once[OF w, of H key fp "hash_algo # rest"]
    have "distinct (warnings (snd (hash_loop H key fp (hash_algo # rest) st)))"
      unfolding warned_once_def by (rule conjunct1)
    then show ?thesis by (rule distinct_count_le_1)
  qed
  from a c hash_loop_once[of st H key fp "hash_algo # rest"]
    warn_unsupported_warnings(1)[of hash_algo st]
  show ?thesis by blast
qed


text \<open>
  On lines and a fingerprint that are both text, on the host without SHA-1: the name
  \<^verbatim>\<open>sha1\<close> is passed over with one warning, MD5 finds the entry, and a second
  attempt logs no second warning.
\<close>

lemma lines_loop_on_text_without_sha1:
  "lines_loop example_host_without_sha1 (PyStr (hexlify example_fingerprint))
      [PyStr (''ssh-rsa a2V5 alice@example'' @ [CHR 0x0A])] \<lparr>seen = [], warnings = []\<rparr>
     = (Inr OPEN_SUCCEEDED, \<lparr>seen = [''hash-sha1-missing''], warnings = [''sha1'']\<rparr>)
   \<and> lines_loop example_host_without_sha1 (PyStr (hexlify example_fingerprint))
      [PyStr (''ssh-rsa a2V5 alice@example'' @ [CHR 0x0A])]
      \<lparr>seen = [''hash-sha1-missing''], warnings = [''sha1'']\<rparr>
     = (Inr OPEN_SUCCEEDED, \<lparr>seen = [''hash-sha1-missing''], warnings = [''sha1'']\<rparr>)"
  by code_simp



end
